theory Spec2Isabelle
  imports Main
begin

section \<open>Values of the JavaScript runtime\<close>

text \<open>
  What \<^verbatim>\<open>response.json()\<close> resolves to is typed \<^verbatim>\<open>any\<close>: a decoded JSON value whose
  shape nothing in the client checks. A number is kept as its canonical rendering (what
  \<^verbatim>\<open>Number.prototype.toString\<close> returns), which determines it up to the sign of zero; the
  client performs no arithmetic on a decoded number. An object is the list of its own
  properties in source order; where the JSON text repeats a key, the last one wins.
\<close>

datatype json = JNull | JBool bool | JNum string | JStr string
  | JArr "json list" | JObj "(string \<times> json) list"

text \<open>
  A thrown value that is not an \<^verbatim>\<open>ApiError\<close>: the \<^verbatim>\<open>TypeError\<close> of a failed
  \<^verbatim>\<open>fetch\<close>, the \<^verbatim>\<open>DOMException\<close> named \<^verbatim>\<open>AbortError\<close> of an aborted one, the
  \<^verbatim>\<open>SyntaxError\<close> of a body that is not JSON. The catch block reads its \<^verbatim>\<open>name\<close> and
  its \<^verbatim>\<open>message\<close>.
\<close>

datatype js_error = JsError (js_name: string) (js_message: string)

text \<open>Truthiness, as \<^verbatim>\<open>||\<close>, \<^verbatim>\<open>?:\<close> and \<^verbatim>\<open>if\<close> test it.\<close>

fun truthy :: "json \<Rightarrow> bool" where
  "truthy JNull = False"
| "truthy (JBool b) = b"
| "truthy (JNum s) = (s \<noteq> ''0'')"
| "truthy (JStr s) = (s \<noteq> [])"
| "truthy (JArr xs) = True"
| "truthy (JObj kvs) = True"

text \<open>
  \<^verbatim>\<open>v.message\<close> and \<^verbatim>\<open>v.errors\<close> on a decoded value \<^verbatim>\<open>v\<close>: reading a property of
  \<^verbatim>\<open>null\<close> throws a \<^verbatim>\<open>TypeError\<close>; an object yields its own property or
  \<^verbatim>\<open>undefined\<close> (\<open>None\<close>); a boolean, number, string or array yields \<^verbatim>\<open>undefined\<close>,
  since no built-in prototype defines either name. The wording of the \<^verbatim>\<open>TypeError\<close> is
  V8's; no property below depends on it.
\<close>

definition read_property :: "json \<Rightarrow> string \<Rightarrow> js_error + json option" where
  "read_property v k =
     (case v of
        JNull \<Rightarrow> Inl (JsError ''TypeError''
                   (''Cannot read properties of null (reading '' @ [CHR 0x27] @ k @ [CHR 0x27] @ '')''))
      | JObj kvs \<Rightarrow> Inr (map_of (rev kvs) k)
      | _ \<Rightarrow> Inr None)"

text \<open>\<^verbatim>\<open>a || b\<close> where \<^verbatim>\<open>a\<close> may be \<^verbatim>\<open>undefined\<close>.\<close>

definition js_or :: "json option \<Rightarrow> json \<Rightarrow> json" where
  "js_or a b = (case a of None \<Rightarrow> b | Some v \<Rightarrow> if truthy v then v else b)"

fun has_key :: "string \<Rightarrow> (string \<times> json) list \<Rightarrow> bool" where
  "has_key k [] = False"
| "has_key k ((k', v) # kvs) = (k = k' \<or> has_key k kvs)"

fun join_comma :: "string list \<Rightarrow> string" where
  "join_comma [] = []"
| "join_comma [s] = s"
| "join_comma (s # t # ss) = s @ '','' @ join_comma (t # ss)"

text \<open>
  The conversion \<^verbatim>\<open>ToString\<close> that the \<^verbatim>\<open>Error\<close> constructor applies to its message.
  An array is joined with commas, \<^verbatim>\<open>null\<close> elements giving the empty string. An object
  gives \<^verbatim>\<open>[object Object]\<close>, unless it has an own property \<^verbatim>\<open>toString\<close>: a decoded
  property is never callable, so the conversion falls through to \<^verbatim>\<open>valueOf\<close>, which
  does not give a primitive either, and a \<^verbatim>\<open>TypeError\<close> is thrown.
\<close>

fun ToString :: "json \<Rightarrow> js_error + string"
  and ToString_elements :: "json list \<Rightarrow> js_error + string list" where
  "ToString JNull = Inr ''null''"
| "ToString (JBool b) = Inr (if b then ''true'' else ''false'')"
| "ToString (JNum s) = Inr s"
| "ToString (JStr s) = Inr s"
| "ToString (JArr xs) =
     (case ToString_elements xs of Inl e \<Rightarrow> Inl e | Inr ss \<Rightarrow> Inr (join_comma ss))"
| "ToString (JObj kvs) =
     (if has_key ''toString'' kvs
      then Inl (JsError ''TypeError'' ''Cannot convert object to primitive value'')
      else Inr ''[object Object]'')"
| "ToString_elements [] = Inr []"
| "ToString_elements (x # xs) =
     (case (if x = JNull then Inr [] else ToString x) of
        Inl e \<Rightarrow> Inl e
      | Inr s \<Rightarrow> (case ToString_elements xs of Inl e \<Rightarrow> Inl e | Inr ss \<Rightarrow> Inr (s # ss)))"

text \<open>The decimal rendering of an HTTP status in the template literal \<^verbatim>\<open>`HTTP ${response.status}`\<close>.\<close>

function show_nat :: "nat \<Rightarrow> string" where
  "show_nat n =
     (if n < 10 then [''0123456789'' ! n]
      else show_nat (n div 10) @ [''0123456789'' ! (n mod 10)])"
  by pat_completeness auto
termination
  by (relation "measure id") auto

declare show_nat.simps [simp del]

text \<open>\<^verbatim>\<open>string[]\<close>: an array all of whose elements are strings.\<close>

fun is_string :: "json \<Rightarrow> bool" where
  "is_string (JStr s) = True"
| "is_string v = False"

fun is_string_array :: "json \<Rightarrow> bool" where
  "is_string_array (JArr xs) = list_all is_string xs"
| "is_string_array v = False"


section \<open>The API client (\<^verbatim>\<open>src/lib/api/client.ts\<close>)\<close>

subsection \<open>Configuration\<close>

text \<open>The block \<^verbatim>\<open>APP_CONFIG.api\<close> of the application configuration.\<close>

record api_config =
  timeout :: int
  retryAttempts :: int
  retryDelay :: int

definition APP_CONFIG_api :: api_config where
  "APP_CONFIG_api = \<lparr> timeout = 30000, retryAttempts = 3, retryDelay = 1000 \<rparr>"

text \<open>
  \<^verbatim>\<open>getEnvironmentConfig().apiUrl\<close>; the argument is \<^verbatim>\<open>window.location.hostname\<close>, or
  \<open>None\<close> where \<^verbatim>\<open>window\<close> is undefined (on the server). \<open>app_url\<close> is \<^verbatim>\<open>APP_CONFIG.apiUrl\<close>.
\<close>

definition getEnvironmentConfig_apiUrl :: "string \<Rightarrow> string option \<Rightarrow> string" where
  "getEnvironmentConfig_apiUrl app_url hostname =
     (case hostname of
        Some h \<Rightarrow> if h = ''localhost'' then ''http://localhost:3001/api'' else app_url
      | None \<Rightarrow> ''http://localhost:3001/api'')"

subsection \<open>\<^verbatim>\<open>ApiError\<close>\<close>

text \<open>
  The fields of an \<^verbatim>\<open>ApiError\<close>. \<^verbatim>\<open>message\<close> is a string whatever the constructor is
  given, since \<^verbatim>\<open>super(message)\<close> converts it. \<^verbatim>\<open>errors\<close> is declared \<^verbatim>\<open>string[]\<close> but
  holds whatever value the constructor is given, so it is a decoded value here.
\<close>

record ApiError =
  error_message :: string
  error_status :: nat
  error_errors :: json

text \<open>
  \<^verbatim>\<open>constructor(message: string, status: number = 500, errors: string[] = [])\<close>, after the
  conversion of the message.
\<close>

definition new_ApiError :: "string \<Rightarrow> nat option \<Rightarrow> json option \<Rightarrow> ApiError" where
  "new_ApiError msg status errors =
     \<lparr> error_message = msg,
       error_status = (case status of None \<Rightarrow> 500 | Some s \<Rightarrow> s),
       error_errors = (case errors of None \<Rightarrow> JArr [] | Some es \<Rightarrow> es) \<rparr>"

text \<open>What a \<^verbatim>\<open>throw\<close> can carry, and what \<^verbatim>\<open>instanceof ApiError\<close> tells apart.\<close>

datatype thrown = Thrown_ApiError ApiError | Thrown_other js_error

subsection \<open>Requests\<close>

datatype request_body = Stringified json | FormData "(string \<times> string) list"

text \<open>
  \<^verbatim>\<open>RequestConfig\<close>: every field is optional. Of \<^verbatim>\<open>RequestInit\<close> the fields the client sets
  are kept.
\<close>

record RequestConfig =
  cfg_timeout :: "int option"
  cfg_retries :: "int option"
  cfg_method :: "string option"
  cfg_headers :: "(string \<rightharpoonup> string) option"
  cfg_body :: "request_body option"

definition no_config :: RequestConfig where
  "no_config = \<lparr> cfg_timeout = None, cfg_retries = None, cfg_method = None,
                  cfg_headers = None, cfg_body = None \<rparr>"

text \<open>Object spread with an optional right operand: \<^verbatim>\<open>{ ...a, ...b }\<close>, field by field.\<close>

definition or_else :: "'a option \<Rightarrow> 'a option \<Rightarrow> 'a option" where
  "or_else a b = (case b of None \<Rightarrow> a | Some v \<Rightarrow> Some v)"

definition spread_headers :: "(string \<rightharpoonup> string) option \<Rightarrow> (string \<rightharpoonup> string)" where
  "spread_headers h = (case h of None \<Rightarrow> Map.empty | Some m \<Rightarrow> m)"

record ApiClient =
  baseUrl :: string
  defaultTimeout :: int
  defaultRetries :: int

definition new_ApiClient :: "api_config \<Rightarrow> string \<Rightarrow> string option \<Rightarrow> ApiClient" where
  "new_ApiClient api app_url hostname =
     \<lparr> baseUrl = getEnvironmentConfig_apiUrl app_url hostname,
       defaultTimeout = timeout api,
       defaultRetries = retryAttempts api \<rparr>"

definition setBaseUrl :: "string \<Rightarrow> ApiClient \<Rightarrow> ApiClient" where
  "setBaseUrl u c = c\<lparr> baseUrl := u \<rparr>"

text \<open>
  The token accessors. \<open>has_window\<close> is \<^verbatim>\<open>typeof window !== 'undefined'\<close>. Both branches
  of \<^verbatim>\<open>getAuthToken\<close> return \<^verbatim>\<open>null\<close>, and \<^verbatim>\<open>setAuthToken\<close> and \<^verbatim>\<open>removeAuthToken\<close>
  have no statement after their guard: the storage calls are comments.
\<close>

definition getAuthToken :: "bool \<Rightarrow> ApiClient \<Rightarrow> string option" where
  "getAuthToken has_window c = (if \<not> has_window then None else None)"

definition setAuthToken :: "bool \<Rightarrow> string \<Rightarrow> ApiClient \<Rightarrow> ApiClient" where
  "setAuthToken has_window token c = (if \<not> has_window then c else c)"

definition removeAuthToken :: "bool \<Rightarrow> ApiClient \<Rightarrow> ApiClient" where
  "removeAuthToken has_window c = (if \<not> has_window then c else c)"

text \<open>
  The headers of the request: \<^verbatim>\<open>Content-Type\<close> first, the caller's headers spread over
  it, then \<^verbatim>\<open>Authorization\<close> when the token is truthy (neither \<^verbatim>\<open>null\<close> nor empty).
\<close>

definition request_headers ::
  "string option \<Rightarrow> (string \<rightharpoonup> string) option \<Rightarrow> (string \<rightharpoonup> string)" where
  "request_headers token hs =
     (let headers = [''Content-Type'' \<mapsto> ''application/json''] ++ spread_headers hs
      in case token of
           None \<Rightarrow> headers
         | Some t \<Rightarrow> if t \<noteq> [] then headers(''Authorization'' \<mapsto> ''Bearer '' @ t) else headers)"

text \<open>
  What \<^verbatim>\<open>fetch\<close> is called with: the URL, the request options, and the delay after
  which the attempt's \<^verbatim>\<open>AbortController\<close> is armed to abort.
\<close>

record fetch_call =
  fetch_url :: string
  fetch_method :: "string option"
  fetch_headers :: "string \<rightharpoonup> string"
  fetch_body :: "request_body option"
  abort_after :: int

definition effective_timeout :: "ApiClient \<Rightarrow> RequestConfig \<Rightarrow> int" where
  "effective_timeout c config =
     (case cfg_timeout config of None \<Rightarrow> defaultTimeout c | Some t \<Rightarrow> t)"

definition effective_retries :: "ApiClient \<Rightarrow> RequestConfig \<Rightarrow> int" where
  "effective_retries c config =
     (case cfg_retries config of None \<Rightarrow> defaultRetries c | Some r \<Rightarrow> r)"

definition prepare_fetch :: "bool \<Rightarrow> ApiClient \<Rightarrow> string \<Rightarrow> RequestConfig \<Rightarrow> fetch_call" where
  "prepare_fetch has_window c endpoint config =
     \<lparr> fetch_url = baseUrl c @ endpoint,
       fetch_method = cfg_method config,
       fetch_headers = request_headers (getAuthToken has_window c) (cfg_headers config),
       fetch_body = cfg_body config,
       abort_after = effective_timeout c config \<rparr>"

subsection \<open>One attempt\<close>

text \<open>
  What the network does with one attempt: \<^verbatim>\<open>fetch\<close> rejects (a network failure, or the
  abort of the armed signal), or a response arrives with a status and a body that
  \<^verbatim>\<open>response.json()\<close> either decodes or rejects.
\<close>

datatype attempt_outcome =
  Rejected js_error
| Responded nat "js_error + json"

definition response_ok :: "nat \<Rightarrow> bool" where
  "response_ok status = (200 \<le> status \<and> status \<le> 299)"

text \<open>
  The branch \<^verbatim>\<open>if (!response.ok)\<close>: the body is decoded, \<^verbatim>\<open>{}\<close> standing in for a body
  that does not decode, and an \<^verbatim>\<open>ApiError\<close> is built from it and thrown. Reading the
  properties or converting the message can throw instead.
\<close>

definition error_of_response :: "nat \<Rightarrow> js_error + json \<Rightarrow> thrown" where
  "error_of_response status body =
     (let errorData = (case body of Inl e \<Rightarrow> JObj [] | Inr v \<Rightarrow> v)
      in case read_property errorData ''message'' of
           Inl e \<Rightarrow> Thrown_other e
         | Inr m \<Rightarrow>
             (case read_property errorData ''errors'' of
                Inl e \<Rightarrow> Thrown_other e
              | Inr es \<Rightarrow>
                  (case ToString (js_or m (JStr (''HTTP '' @ show_nat status))) of
                     Inl e \<Rightarrow> Thrown_other e
                   | Inr msg \<Rightarrow>
                       Thrown_ApiError
                         (new_ApiError msg (Some status) (Some (js_or es (JArr [])))))))"

text \<open>The \<^verbatim>\<open>try\<close> block: \<open>Inr\<close> is the \<^verbatim>\<open>return data\<close>, \<open>Inl\<close> what reaches the \<^verbatim>\<open>catch\<close>.\<close>

definition try_attempt :: "attempt_outcome \<Rightarrow> thrown + json" where
  "try_attempt outcome =
     (case outcome of
        Rejected e \<Rightarrow> Inl (Thrown_other e)
      | Responded status body \<Rightarrow>
          if \<not> response_ok status then Inl (error_of_response status body)
          else (case body of Inl e \<Rightarrow> Inl (Thrown_other e) | Inr data \<Rightarrow> Inr data))"

text \<open>The \<^verbatim>\<open>catch\<close> block on the final attempt: what it throws.\<close>

definition final_error :: "thrown \<Rightarrow> ApiError" where
  "final_error error =
     (case error of
        Thrown_ApiError e \<Rightarrow> e
      | Thrown_other e \<Rightarrow>
          if js_name e = ''AbortError'' then new_ApiError ''Request timeout'' (Some 408) None
          else new_ApiError (if js_message e \<noteq> [] then js_message e else ''Network error'')
                 (Some 0) None)"

subsection \<open>The retry loop\<close>

datatype event = Fetch fetch_call | Sleep int

text \<open>
  \<^verbatim>\<open>for (let attempt = 0; attempt <= retries; attempt++)\<close>. The first component is the
  outcome of the call, \<open>Inl\<close> what it throws; the second is what the call did, in order:
  the calls of \<^verbatim>\<open>fetch\<close> and the delays awaited. \<open>world k\<close> is what the network does
  with attempt \<open>k\<close>.
\<close>

function attempt_loop ::
  "int \<Rightarrow> (nat \<Rightarrow> attempt_outcome) \<Rightarrow> fetch_call \<Rightarrow> int \<Rightarrow> int \<Rightarrow> (thrown + json) \<times> event list" where
  "attempt_loop delay world call retries attempt =
     (if attempt \<le> retries then
        (case try_attempt (world (nat attempt)) of
           Inr data \<Rightarrow> (Inr data, [Fetch call])
         | Inl error \<Rightarrow>
             if attempt = retries then (Inl (Thrown_ApiError (final_error error)), [Fetch call])
             else apsnd (\<lambda>evs. Fetch call # Sleep (delay * (attempt + 1)) # evs)
                    (attempt_loop delay world call retries (attempt + 1)))
      else (Inl (Thrown_ApiError (new_ApiError ''Max retries exceeded'' (Some 0) None)), []))"
  by pat_completeness auto
termination
  by (relation "measure (\<lambda>(delay, world, call, retries, attempt). nat (retries + 1 - attempt))") auto

declare attempt_loop.simps [simp del]

definition makeRequest ::
  "api_config \<Rightarrow> bool \<Rightarrow> ApiClient \<Rightarrow> (nat \<Rightarrow> attempt_outcome) \<Rightarrow> string \<Rightarrow> RequestConfig
     \<Rightarrow> (thrown + json) \<times> event list" where
  "makeRequest api has_window c world endpoint config =
     attempt_loop (retryDelay api) world (prepare_fetch has_window c endpoint config)
       (effective_retries c config) 0"

text \<open>What a call did: the requests it issued and the delays it waited, each in order.\<close>

fun fetches :: "event list \<Rightarrow> fetch_call list" where
  "fetches [] = []"
| "fetches (Fetch c # evs) = c # fetches evs"
| "fetches (Sleep d # evs) = fetches evs"

fun sleeps :: "event list \<Rightarrow> int list" where
  "sleeps [] = []"
| "sleeps (Fetch c # evs) = sleeps evs"
| "sleeps (Sleep d # evs) = d # sleeps evs"

text \<open>An attempt fails when the \<^verbatim>\<open>try\<close> block does not reach its \<^verbatim>\<open>return\<close>.\<close>

definition attempt_fails :: "attempt_outcome \<Rightarrow> bool" where
  "attempt_fails outcome =
     (case outcome of
        Rejected e \<Rightarrow> True
      | Responded status body \<Rightarrow> \<not> response_ok status \<or> isl body)"

subsection \<open>The public methods\<close>

text \<open>
  Each method spreads the caller's configuration over its own fields, so a field the
  caller sets wins. A configuration that is not passed is \<open>no_config\<close>. The payload of
  \<^verbatim>\<open>post\<close>, \<^verbatim>\<open>put\<close> and \<^verbatim>\<open>patch\<close> is \<open>None\<close> where it is not passed.
\<close>

definition stringify_if_truthy :: "json option \<Rightarrow> request_body option" where
  "stringify_if_truthy d =
     (case d of None \<Rightarrow> None | Some v \<Rightarrow> if truthy v then Some (Stringified v) else None)"

definition get ::
  "api_config \<Rightarrow> bool \<Rightarrow> ApiClient \<Rightarrow> (nat \<Rightarrow> attempt_outcome) \<Rightarrow> string \<Rightarrow> RequestConfig
     \<Rightarrow> (thrown + json) \<times> event list" where
  "get api has_window c world endpoint config =
     makeRequest api has_window c world endpoint
       (config\<lparr> cfg_method := or_else (Some ''GET'') (cfg_method config) \<rparr>)"

definition post ::
  "api_config \<Rightarrow> bool \<Rightarrow> ApiClient \<Rightarrow> (nat \<Rightarrow> attempt_outcome) \<Rightarrow> string \<Rightarrow> json option
     \<Rightarrow> RequestConfig \<Rightarrow> (thrown + json) \<times> event list" where
  "post api has_window c world endpoint d config =
     makeRequest api has_window c world endpoint
       (config\<lparr> cfg_method := or_else (Some ''POST'') (cfg_method config),
                cfg_body := or_else (stringify_if_truthy d) (cfg_body config) \<rparr>)"

definition put ::
  "api_config \<Rightarrow> bool \<Rightarrow> ApiClient \<Rightarrow> (nat \<Rightarrow> attempt_outcome) \<Rightarrow> string \<Rightarrow> json option
     \<Rightarrow> RequestConfig \<Rightarrow> (thrown + json) \<times> event list" where
  "put api has_window c world endpoint d config =
     makeRequest api has_window c world endpoint
       (config\<lparr> cfg_method := or_else (Some ''PUT'') (cfg_method config),
                cfg_body := or_else (stringify_if_truthy d) (cfg_body config) \<rparr>)"

definition patch ::
  "api_config \<Rightarrow> bool \<Rightarrow> ApiClient \<Rightarrow> (nat \<Rightarrow> attempt_outcome) \<Rightarrow> string \<Rightarrow> json option
     \<Rightarrow> RequestConfig \<Rightarrow> (thrown + json) \<times> event list" where
  "patch api has_window c world endpoint d config =
     makeRequest api has_window c world endpoint
       (config\<lparr> cfg_method := or_else (Some ''PATCH'') (cfg_method config),
                cfg_body := or_else (stringify_if_truthy d) (cfg_body config) \<rparr>)"

definition delete ::
  "api_config \<Rightarrow> bool \<Rightarrow> ApiClient \<Rightarrow> (nat \<Rightarrow> attempt_outcome) \<Rightarrow> string \<Rightarrow> RequestConfig
     \<Rightarrow> (thrown + json) \<times> event list" where
  "delete api has_window c world endpoint config =
     makeRequest api has_window c world endpoint
       (config\<lparr> cfg_method := or_else (Some ''DELETE'') (cfg_method config) \<rparr>)"

text \<open>
  \<^verbatim>\<open>upload\<close> takes the headers out of the configuration and passes a copy of them,
  adding none of its own, then spreads the rest of the configuration.
\<close>

definition upload ::
  "api_config \<Rightarrow> bool \<Rightarrow> ApiClient \<Rightarrow> (nat \<Rightarrow> attempt_outcome) \<Rightarrow> string
     \<Rightarrow> (string \<times> string) list \<Rightarrow> RequestConfig \<Rightarrow> (thrown + json) \<times> event list" where
  "upload api has_window c world endpoint formData config =
     makeRequest api has_window c world endpoint
       (config\<lparr> cfg_method := or_else (Some ''POST'') (cfg_method config),
                cfg_body := or_else (Some (FormData formData)) (cfg_body config),
                cfg_headers := Some (spread_headers (cfg_headers config)) \<rparr>)"


section \<open>The hooks (\<^verbatim>\<open>src/lib/api/hooks.ts\<close>)\<close>

text \<open>
  A hook's state is the tuple of its \<^verbatim>\<open>useState\<close> cells. The setters act on the live
  state, whichever render the function that calls them was built in; what a function
  built by \<^verbatim>\<open>useCallback\<close> reads of the state is what the state was in the render that
  built it. An operation is a function from the live state to the state once its promise
  has settled, with the state of its render as a further argument where it reads one.
  The producers are typed as the hooks declare them; what a producer resolves to or
  rejects with is a parameter.
\<close>

subsection \<open>Envelopes\<close>

record 'a ApiResponse =
  data :: 'a
  message :: "string option"
  success :: bool
  errors :: "string list option"

record Pagination =
  current_page :: nat
  per_page :: nat
  total :: nat
  total_pages :: nat
  has_next :: bool
  has_prev :: bool

text \<open>
  The paginated producer is typed \<^verbatim>\<open>Promise<any>\<close> and the hook reads
  \<^verbatim>\<open>pagination?.has_next\<close>, so the block may be missing.
\<close>

record 'a PaginatedResponse = "'a list ApiResponse" +
  pagination :: "Pagination option"

text \<open>The JSON value of an envelope on the wire, after \<^verbatim>\<open>interface ApiResponse\<close>.\<close>

definition ApiResponse_json :: "json ApiResponse \<Rightarrow> json" where
  "ApiResponse_json r =
     JObj ([(''data'', data r)]
           @ (case message r of None \<Rightarrow> [] | Some m \<Rightarrow> [(''message'', JStr m)])
           @ [(''success'', JBool (success r))]
           @ (case errors r of None \<Rightarrow> [] | Some es \<Rightarrow> [(''errors'', JArr (map JStr es))]))"

text \<open>\<^verbatim>\<open>response.message || fallback\<close> on an optional string.\<close>

definition string_or :: "string option \<Rightarrow> string \<Rightarrow> string" where
  "string_or m fallback = (case m of None \<Rightarrow> fallback | Some s \<Rightarrow> if s \<noteq> [] then s else fallback)"

text \<open>The \<^verbatim>\<open>catch\<close> block shared by the fetching hooks.\<close>

definition caught_message :: "thrown \<Rightarrow> string" where
  "caught_message err =
     (case err of Thrown_ApiError e \<Rightarrow> error_message e | Thrown_other e \<Rightarrow> ''Network error occurred'')"

subsection \<open>\<^verbatim>\<open>useApi\<close>\<close>

record 'a UseApiState =
  api_data :: "'a option"
  api_loading :: bool
  api_error :: "string option"

definition useApi_initial :: "'a UseApiState" where
  "useApi_initial = \<lparr> api_data = None, api_loading = True, api_error = None \<rparr>"

text \<open>\<^verbatim>\<open>fetchData\<close> of \<^verbatim>\<open>useApi\<close>; \<open>result\<close> is what \<^verbatim>\<open>await apiCall()\<close> gives.\<close>

definition useApi_fetchData :: "thrown + 'a ApiResponse \<Rightarrow> 'a UseApiState \<Rightarrow> 'a UseApiState" where
  "useApi_fetchData result st =
     (let st1 = st\<lparr> api_loading := True, api_error := None \<rparr>;
          st2 = (case result of
                   Inr response \<Rightarrow>
                     if success response then st1\<lparr> api_data := Some (data response) \<rparr>
                     else st1\<lparr> api_error := Some (string_or (message response)
                                                      ''Unknown error occurred'') \<rparr>
                 | Inl err \<Rightarrow> st1\<lparr> api_error := Some (caught_message err) \<rparr>)
      in st2\<lparr> api_loading := False \<rparr>)"

subsection \<open>\<^verbatim>\<open>usePaginatedApi\<close>\<close>

record 'a UseApiListState =
  list_data :: "'a list"
  list_loading :: bool
  list_error :: "string option"
  page :: nat
  hasMore :: bool

definition usePaginatedApi_initial :: "'a UseApiListState" where
  "usePaginatedApi_initial =
     \<lparr> list_data = [], list_loading = True, list_error = None, page = 1, hasMore = True \<rparr>"

text \<open>
  \<^verbatim>\<open>fetchData(pageNum, append)\<close> of \<^verbatim>\<open>usePaginatedApi\<close>. The second component lists
  the invocations of the producer, each with its arguments.
\<close>

definition fetchData ::
  "(nat \<Rightarrow> nat \<Rightarrow> thrown + 'a PaginatedResponse) \<Rightarrow> nat \<Rightarrow> nat \<Rightarrow> bool \<Rightarrow> 'a UseApiListState
     \<Rightarrow> 'a UseApiListState \<times> (nat \<times> nat) list" where
  "fetchData apiCall limit pageNum append' st =
     (let st1 = st\<lparr> list_loading := True \<rparr>;
          st2 = (if \<not> append' then st1\<lparr> list_error := None \<rparr> else st1);
          st3 = (case apiCall pageNum limit of
                   Inr response \<Rightarrow>
                     if success response then
                       (let newData = data response;
                            st4 = (if append' then st2\<lparr> list_data := list_data st2 @ newData \<rparr>
                                   else st2\<lparr> list_data := newData \<rparr>)
                        in st4\<lparr> hasMore := (case pagination response of
                                               None \<Rightarrow> False | Some p \<Rightarrow> has_next p),
                                 page := pageNum \<rparr>)
                     else st2\<lparr> list_error := Some (string_or (message response)
                                                       ''Unknown error occurred'') \<rparr>
                 | Inl err \<Rightarrow> st2\<lparr> list_error := Some (caught_message err) \<rparr>)
      in (st3\<lparr> list_loading := False \<rparr>, [(pageNum, limit)]))"

text \<open>
  \<^verbatim>\<open>loadMore\<close> is built by \<^verbatim>\<open>useCallback\<close> from the \<^verbatim>\<open>page\<close>, \<^verbatim>\<open>hasMore\<close> and
  \<^verbatim>\<open>loading\<close> of its render, and a later render builds another. \<open>render\<close> is the state
  as of the render whose \<^verbatim>\<open>loadMore\<close> is called: the guard and the page number come from
  there. \<open>st\<close> is the state at the time of the call, on which \<^verbatim>\<open>fetchData\<close> acts. For
  a call through the \<^verbatim>\<open>loadMore\<close> of the current render the two are the same.
\<close>

definition loadMore ::
  "(nat \<Rightarrow> nat \<Rightarrow> thrown + 'a PaginatedResponse) \<Rightarrow> nat \<Rightarrow> 'a UseApiListState \<Rightarrow> 'a UseApiListState
     \<Rightarrow> 'a UseApiListState \<times> (nat \<times> nat) list" where
  "loadMore apiCall limit render st =
     (if hasMore render \<and> \<not> list_loading render
      then fetchData apiCall limit (page render + 1) True st
      else (st, []))"

text \<open>\<^verbatim>\<open>refetch\<close> reads nothing of the state: it sets the page and fetches.\<close>

definition refetch ::
  "(nat \<Rightarrow> nat \<Rightarrow> thrown + 'a PaginatedResponse) \<Rightarrow> nat \<Rightarrow> 'a UseApiListState
     \<Rightarrow> 'a UseApiListState \<times> (nat \<times> nat) list" where
  "refetch apiCall limit st = fetchData apiCall limit 1 False (st\<lparr> page := 1 \<rparr>)"

text \<open>
  \<^verbatim>\<open>useEffect(() => { fetchData(1, false) }, [fetchData])\<close>. The effect runs after the
  first render, and after each later render in which \<^verbatim>\<open>fetchData\<close> is a new function;
  \<^verbatim>\<open>useCallback\<close> makes it a new one whenever \<^verbatim>\<open>apiCall\<close>, \<^verbatim>\<open>limit\<close> or a dependency is
  not what it was in the render before. \<open>changed\<close> says whether it is new in the
  render at hand. A hook given a new producer function in every render (an arrow function
  written inline, as in \<^verbatim>\<open>useUsers\<close>, \<^verbatim>\<open>useProjects\<close>, \<^verbatim>\<open>useContactMessages\<close> and
  \<^verbatim>\<open>useBlogPosts\<close>) runs the effect after every render, those its own fetch causes
  included; a hook whose producer keeps its identity runs it once.
\<close>

definition effect ::
  "bool \<Rightarrow> (nat \<Rightarrow> nat \<Rightarrow> thrown + 'a PaginatedResponse) \<Rightarrow> nat \<Rightarrow> 'a UseApiListState
     \<Rightarrow> 'a UseApiListState \<times> (nat \<times> nat) list" where
  "effect changed apiCall limit st =
     (if changed then fetchData apiCall limit 1 False st else (st, []))"

text \<open>The first render: the effect runs on the initial state.\<close>

definition mount ::
  "(nat \<Rightarrow> nat \<Rightarrow> thrown + 'a PaginatedResponse) \<Rightarrow> nat \<Rightarrow> 'a UseApiListState \<times> (nat \<times> nat) list" where
  "mount apiCall limit = effect True apiCall limit usePaginatedApi_initial"

text \<open>A fetch that does not deliver a page: the producer rejects, or its envelope has \<^verbatim>\<open>success\<close> false.\<close>

definition fetch_failed :: "thrown + 'a PaginatedResponse \<Rightarrow> bool" where
  "fetch_failed result = (case result of Inl err \<Rightarrow> True | Inr response \<Rightarrow> \<not> success response)"

subsection \<open>\<^verbatim>\<open>useAuth\<close>\<close>

text \<open>
  What \<^verbatim>\<open>logout\<close> can be seen to do: call the logout service, refetch the current
  user, write to the console, clear the stored token.
\<close>

datatype auth_effect = Call_logout | Call_refetch | Console_error thrown | Call_removeAuthToken

text \<open>
  \<^verbatim>\<open>logout\<close> of \<^verbatim>\<open>useAuth\<close>. \<open>logged_out\<close> is what \<^verbatim>\<open>await api.user.logout()\<close> gives and
  \<open>current_user\<close> what the producer of \<^verbatim>\<open>useCurrentUser\<close> gives. The first component is
  how the promise of \<^verbatim>\<open>logout\<close> settles (\<open>Inl\<close> a rejection), the second the state of the
  current-user hook, the third the effects in order. Where the source clears the stored
  token there is a comment and no statement.
\<close>

definition logout ::
  "thrown + 'b ApiResponse \<Rightarrow> thrown + 'a ApiResponse \<Rightarrow> 'a UseApiState
     \<Rightarrow> (thrown + unit) \<times> 'a UseApiState \<times> auth_effect list" where
  "logout logged_out current_user st =
     (case logged_out of
        Inr response \<Rightarrow> (Inr (), useApi_fetchData current_user st, [Call_logout, Call_refetch])
      | Inl error \<Rightarrow> (Inr (), st, [Call_logout, Console_error error]))"


section \<open>Test data and conventions\<close>

text \<open>A network that treats every attempt alike, and one that replays a script.\<close>

definition server_always :: "attempt_outcome \<Rightarrow> nat \<Rightarrow> attempt_outcome" where
  "server_always outcome k = outcome"

definition server_script :: "attempt_outcome list \<Rightarrow> attempt_outcome \<Rightarrow> nat \<Rightarrow> attempt_outcome" where
  "server_script outcomes rest k = (if k < length outcomes then outcomes ! k else rest)"

text \<open>The client as constructed in a browser on \<^verbatim>\<open>localhost\<close> with the shipped configuration.\<close>

definition shipped_client :: ApiClient where
  "shipped_client = new_ApiClient APP_CONFIG_api ''http://localhost:3001/api'' (Some ''localhost'')"

text \<open>
  The convention the body of a response outside the 2xx range is expected to follow for
  its \<^verbatim>\<open>errors\<close> property: missing, falsy, or an array of strings.
\<close>

definition errors_conventional :: "attempt_outcome \<Rightarrow> bool" where
  "errors_conventional outcome =
     (case outcome of
        Rejected e \<Rightarrow> True
      | Responded status body \<Rightarrow>
          if response_ok status then True
          else (case body of
                  Inl e \<Rightarrow> True
                | Inr v \<Rightarrow>
                    (case read_property v ''errors'' of
                       Inl e \<Rightarrow> True
                     | Inr None \<Rightarrow> True
                     | Inr (Some es) \<Rightarrow> if truthy es then is_string_array es else True)))"

text \<open>The value of one header in each request issued, in order.\<close>

definition header_sent :: "string \<Rightarrow> event list \<Rightarrow> string option list" where
  "header_sent name evs = map (\<lambda>call. fetch_headers call name) (fetches evs)"

text \<open>
  A backend that serves the given pages, numbered from 1, and answers any other page
  number with a 404.
\<close>

definition paged_server :: "'a PaginatedResponse list \<Rightarrow> nat \<Rightarrow> nat \<Rightarrow> thrown + 'a PaginatedResponse" where
  "paged_server pages pageNum limit =
     (if 1 \<le> pageNum \<and> pageNum \<le> length pages then Inr (pages ! (pageNum - 1))
      else Inl (Thrown_ApiError (new_ApiError ''HTTP 404'' (Some 404) None)))"

definition page_of :: "'a list \<Rightarrow> nat \<Rightarrow> bool \<Rightarrow> 'a PaginatedResponse" where
  "page_of items n next =
     \<lparr> data = items, message = None, success = True, errors = None,
       pagination = Some \<lparr> current_page = n, per_page = 2, total = 5, total_pages = 3,
                           has_next = next, has_prev = (1 < n) \<rparr> \<rparr>"


section \<open>The request engine: how the loop unrolls\<close>

text \<open>An attempt fails exactly when its \<^verbatim>\<open>try\<close> block throws.\<close>

lemma try_attempt_fails: "attempt_fails outcome \<longleftrightarrow> isl (try_attempt outcome)"
  by (auto simp: attempt_fails_def try_attempt_def split: attempt_outcome.splits sum.splits)

text \<open>
  Attempts \<open>k, \<dots>, N\<close> all failing: the loop retries after each but the last, waiting
  in between, and throws what the catch block makes of the last failure.
\<close>

lemma attempt_loop_all_fail:
  assumes "k \<le> N" and "\<And>j. k \<le> j \<Longrightarrow> j \<le> N \<Longrightarrow> attempt_fails (world j)"
  shows "attempt_loop d world call (int N) (int k) =
           (Inl (Thrown_ApiError (final_error (projl (try_attempt (world N))))),
            concat (map (\<lambda>j. [Fetch call, Sleep (d * (int j + 1))]) [k..<N]) @ [Fetch call])"
  using assms
proof (induction "N - k" arbitrary: k)
  case 0
  then have kN: "k = N" by simp
  from 0 have "attempt_fails (world N)" by simp
  then obtain err where err: "try_attempt (world N) = Inl err"
    by (auto simp: try_attempt_fails isl_def)
  show ?case
    unfolding kN by (subst attempt_loop.simps) (simp add: err)
next
  case (Suc n)
  then have lt: "k < N" by simp
  from Suc.prems lt have "attempt_fails (world k)" by simp
  then obtain err where err: "try_attempt (world k) = Inl err"
    by (auto simp: try_attempt_fails isl_def)
  have step: "attempt_loop d world call (int N) (int (Suc k)) =
           (Inl (Thrown_ApiError (final_error (projl (try_attempt (world N))))),
            concat (map (\<lambda>j. [Fetch call, Sleep (d * (int j + 1))]) [Suc k..<N]) @ [Fetch call])"
    using Suc.hyps(2) Suc.prems lt by (intro Suc.hyps(1)) auto
  have up: "[k..<N] = k # [Suc k..<N]"
    using lt by (simp add: upt_conv_Cons)
  have suc: "int (Suc k) = int k + 1" by simp
  show ?case
    using lt step unfolding suc by (subst attempt_loop.simps) (simp add: err up)
qed

text \<open>Attempts \<open>k, \<dots>, m - 1\<close> failing and attempt \<open>m\<close> returning: the loop returns there.\<close>

lemma attempt_loop_until_success:
  assumes "k \<le> m" and "m \<le> N"
      and "\<And>j. k \<le> j \<Longrightarrow> j < m \<Longrightarrow> attempt_fails (world j)"
      and "try_attempt (world m) = Inr v"
  shows "attempt_loop d world call (int N) (int k) =
           (Inr v, concat (map (\<lambda>j. [Fetch call, Sleep (d * (int j + 1))]) [k..<m]) @ [Fetch call])"
  using assms(1,3)
proof (induction "m - k" arbitrary: k)
  case 0
  then have km: "k = m" by simp
  show ?case
    unfolding km using assms(2,4) by (subst attempt_loop.simps) simp
next
  case (Suc n)
  then have lt: "k < m" by simp
  from Suc.prems lt have "attempt_fails (world k)" by simp
  then obtain err where err: "try_attempt (world k) = Inl err"
    by (auto simp: try_attempt_fails isl_def)
  have step: "attempt_loop d world call (int N) (int (Suc k)) =
           (Inr v, concat (map (\<lambda>j. [Fetch call, Sleep (d * (int j + 1))]) [Suc k..<m]) @ [Fetch call])"
    using Suc.hyps(2) Suc.prems lt by (intro Suc.hyps(1)) auto
  have up: "[k..<m] = k # [Suc k..<m]"
    using lt by (simp add: upt_conv_Cons)
  have suc: "int (Suc k) = int k + 1" by simp
  show ?case
    using lt assms(2) step unfolding suc by (subst attempt_loop.simps) (simp add: err up)
qed

lemma attempt_loop_first_success:
  assumes "0 \<le> retries" and "try_attempt (world 0) = Inr v"
  shows "attempt_loop d world call retries 0 = (Inr v, [Fetch call])"
  using assms by (subst attempt_loop.simps) simp

lemma attempt_loop_once:
  "attempt_loop d world call 0 0 =
     (case try_attempt (world 0) of
        Inr v \<Rightarrow> (Inr v, [Fetch call])
      | Inl error \<Rightarrow> (Inl (Thrown_ApiError (final_error error)), [Fetch call]))"
  by (subst attempt_loop.simps) (simp split: sum.splits)

lemma fetches_schedule:
  "fetches (concat (map (\<lambda>j. [Fetch call, Sleep (f j)]) ks) @ [Fetch call]) = replicate (Suc (length ks)) call"
  by (induction ks) simp_all

lemma sleeps_schedule:
  "sleeps (concat (map (\<lambda>j. [Fetch call, Sleep (f j)]) ks) @ [Fetch call]) = map f ks"
  by (induction ks) simp_all

text \<open>Every attempt of a call issues the same request.\<close>

lemma fetches_attempt_loop:
  "set (fetches (snd (attempt_loop d world call retries attempt))) \<subseteq> {call}"
proof (induction d world call retries attempt rule: attempt_loop.induct)
  case (1 delay world call retries attempt)
  show ?case
  proof (cases "attempt \<le> retries")
    case False
    then show ?thesis by (subst attempt_loop.simps) simp
  next
    case le: True
    show ?thesis
    proof (cases "try_attempt (world (nat attempt))")
      case (Inr v)
      with le show ?thesis by (subst attempt_loop.simps) simp
    next
      case (Inl error)
      show ?thesis
      proof (cases "attempt = retries")
        case True
        with le Inl show ?thesis by (subst attempt_loop.simps) simp
      next
        case False
        with "1.IH" [OF le Inl False] le Inl show ?thesis
          by (subst attempt_loop.simps) simp
      qed
    qed
  qed
qed

lemma all_same_replicate: "set xs \<subseteq> {x} \<Longrightarrow> xs = replicate (length xs) x"
  by (induction xs) auto

lemma header_sent_makeRequest:
  "header_sent name (snd (makeRequest api has_window c world endpoint config)) =
     replicate (length (fetches (snd (makeRequest api has_window c world endpoint config))))
       (request_headers (getAuthToken has_window c) (cfg_headers config) name)"
proof -
  let ?call = "prepare_fetch has_window c endpoint config"
  let ?evs = "snd (makeRequest api has_window c world endpoint config)"
  have "fetches ?evs = replicate (length (fetches ?evs)) ?call"
    unfolding makeRequest_def by (rule all_same_replicate) (rule fetches_attempt_loop)
  then have "header_sent name ?evs = map (\<lambda>call. fetch_headers call name)
                (replicate (length (fetches ?evs)) ?call)"
    unfolding header_sent_def by simp
  then show ?thesis
    by (simp add: prepare_fetch_def)
qed


section \<open>Retries and backoff\<close>

text \<open>
  C1. A call whose effective \<^verbatim>\<open>retries\<close> is \<open>N\<close> and whose attempts \<open>0, \<dots>, N\<close> all fail
  throws an \<^verbatim>\<open>ApiError\<close>, the one the catch block builds from what the last attempt threw,
  after exactly \<open>N + 1\<close> calls of \<^verbatim>\<open>fetch\<close>, one after the other; after attempt \<open>k < N\<close>
  it waits \<^verbatim>\<open>retryDelay * (k + 1)\<close> milliseconds, so the delays are one unit, two units,
  up to \<open>N\<close> units, in that order, and none follows the last attempt.
\<close>

theorem retry_exhaustion:
  assumes "effective_retries c config = int N"
      and "\<forall>k\<le>N. attempt_fails (world k)"
  shows "\<exists>error evs.
           try_attempt (world N) = Inl error \<and>
           makeRequest api has_window c world endpoint config =
             (Inl (Thrown_ApiError (final_error error)), evs) \<and>
           evs = concat (map (\<lambda>k. [Fetch (prepare_fetch has_window c endpoint config),
                                     Sleep (retryDelay api * (int k + 1))]) [0..<N])
                   @ [Fetch (prepare_fetch has_window c endpoint config)] \<and>
           length (fetches evs) = N + 1 \<and>
           sleeps evs = map (\<lambda>k. retryDelay api * (int k + 1)) [0..<N]"
proof -
  from assms(2) have "attempt_fails (world N)" by simp
  then obtain err where err: "try_attempt (world N) = Inl err"
    by (auto simp: try_attempt_fails isl_def)
  have "attempt_loop (retryDelay api) world (prepare_fetch has_window c endpoint config) (int N) (int 0) =
          (Inl (Thrown_ApiError (final_error (projl (try_attempt (world N))))),
           concat (map (\<lambda>j. [Fetch (prepare_fetch has_window c endpoint config),
                               Sleep (retryDelay api * (int j + 1))]) [0..<N])
             @ [Fetch (prepare_fetch has_window c endpoint config)])"
    using assms(2) by (intro attempt_loop_all_fail) auto
  then show ?thesis
    using err assms(1)
    by (simp add: makeRequest_def fetches_schedule sleeps_schedule)
qed

text \<open>
  The shipped client, three retries by default, against a network that refuses every
  connection: four requests, and waits of one, two and three seconds between them.
\<close>

theorem retry_exhaustion_witness:
  "makeRequest APP_CONFIG_api True shipped_client
      (server_always (Rejected (JsError ''TypeError'' ''Failed to fetch''))) ''/users'' no_config =
     (Inl (Thrown_ApiError \<lparr> error_message = ''Failed to fetch'', error_status = 0,
                              error_errors = JArr [] \<rparr>),
      [Fetch (prepare_fetch True shipped_client ''/users'' no_config), Sleep 1000,
       Fetch (prepare_fetch True shipped_client ''/users'' no_config), Sleep 2000,
       Fetch (prepare_fetch True shipped_client ''/users'' no_config), Sleep 3000,
       Fetch (prepare_fetch True shipped_client ''/users'' no_config)])"
proof -
  have retries: "effective_retries shipped_client no_config = int 3"
    by (simp add: effective_retries_def no_config_def shipped_client_def new_ApiClient_def
        APP_CONFIG_api_def)
  have fails: "\<forall>k\<le>3. attempt_fails
      (server_always (Rejected (JsError ''TypeError'' ''Failed to fetch'')) k)"
    by (simp add: attempt_fails_def server_always_def)
  have upt: "[0..<3] = [0, 1, 2]"
    by (simp add: upt_rec)
  from retry_exhaustion [OF retries fails, of APP_CONFIG_api True "''/users''"]
  obtain error evs where
    thrown: "try_attempt (server_always (Rejected (JsError ''TypeError'' ''Failed to fetch'')) 3)
               = Inl error" and
    result: "makeRequest APP_CONFIG_api True shipped_client
               (server_always (Rejected (JsError ''TypeError'' ''Failed to fetch''))) ''/users''
               no_config = (Inl (Thrown_ApiError (final_error error)), evs)" and
    evs: "evs = concat (map (\<lambda>k. [Fetch (prepare_fetch True shipped_client ''/users'' no_config),
                                     Sleep (retryDelay APP_CONFIG_api * (int k + 1))]) [0..<3])
                  @ [Fetch (prepare_fetch True shipped_client ''/users'' no_config)]"
    by blast
  from thrown have "error = Thrown_other (JsError ''TypeError'' ''Failed to fetch'')"
    by (simp add: server_always_def try_attempt_def)
  then have "final_error error = \<lparr> error_message = ''Failed to fetch'', error_status = 0,
                                     error_errors = JArr [] \<rparr>"
    by (simp add: final_error_def new_ApiError_def)
  moreover have "evs = [Fetch (prepare_fetch True shipped_client ''/users'' no_config), Sleep 1000,
       Fetch (prepare_fetch True shipped_client ''/users'' no_config), Sleep 2000,
       Fetch (prepare_fetch True shipped_client ''/users'' no_config), Sleep 3000,
       Fetch (prepare_fetch True shipped_client ''/users'' no_config)]"
    unfolding evs upt by (simp add: APP_CONFIG_api_def)
  ultimately show ?thesis
    using result by simp
qed


section \<open>The shape of the error\<close>

text \<open>
  A response 422 whose body carries its validation errors as an object keyed by field:
  the \<^verbatim>\<open>ApiError\<close> thrown holds that object in \<^verbatim>\<open>errors\<close>, which is no array of strings.
\<close>

theorem error_shape_counterexample:
  "fst (makeRequest APP_CONFIG_api True shipped_client
          (server_always (Responded 422 (Inr (JObj
             [(''message'', JStr ''Validation failed''),
              (''errors'', JObj [(''email'', JArr [JStr ''has already been taken''])])]))))
          ''/auth/register'' (no_config\<lparr> cfg_retries := Some 0 \<rparr>))
     = Inl (Thrown_ApiError
             \<lparr> error_message = ''Validation failed'', error_status = 422,
               error_errors = JObj [(''email'', JArr [JStr ''has already been taken''])] \<rparr>)
   \<and> \<not> is_string_array (JObj [(''email'', JArr [JStr ''has already been taken''])])"
  by (simp add: makeRequest_def effective_retries_def no_config_def attempt_loop_once
      server_always_def try_attempt_def response_ok_def error_of_response_def read_property_def
      js_or_def new_ApiError_def final_error_def)

lemma error_of_response_errors:
  assumes "error_of_response status body = Thrown_ApiError e"
      and "errors_conventional (Responded status body)"
      and "\<not> response_ok status"
  shows "is_string_array (error_errors e)"
proof (cases body)
  case (Inl x)
  with assms(1) show ?thesis
    by (auto simp: error_of_response_def read_property_def new_ApiError_def js_or_def
        split: sum.splits)
next
  case (Inr v)
  with assms show ?thesis
    by (auto simp: error_of_response_def errors_conventional_def new_ApiError_def js_or_def
        split: sum.splits option.splits if_splits)
qed

lemma final_error_errors:
  assumes "try_attempt outcome = Inl error" and "errors_conventional outcome"
  shows "is_string_array (error_errors (final_error error))"
proof (cases outcome)
  case (Rejected e)
  with assms(1) show ?thesis
    by (auto simp: try_attempt_def final_error_def new_ApiError_def)
next
  case (Responded status body)
  show ?thesis
  proof (cases error)
    case (Thrown_ApiError e)
    with assms(1) Responded
    have "\<not> response_ok status" and "error_of_response status body = Thrown_ApiError e"
      by (auto simp: try_attempt_def split: if_splits sum.splits)
    with assms(2) Responded Thrown_ApiError show ?thesis
      by (simp add: final_error_def error_of_response_errors)
  next
    case (Thrown_other e)
    then show ?thesis
      by (simp add: final_error_def new_ApiError_def)
  qed
qed

lemma attempt_loop_throws_ApiError:
  "fst (attempt_loop d world call retries attempt) = Inl t \<Longrightarrow> \<exists>e. t = Thrown_ApiError e"
proof (induction d world call retries attempt rule: attempt_loop.induct)
  case (1 delay world call retries attempt)
  show ?case
  proof (cases "attempt \<le> retries")
    case False
    with "1.prems" show ?thesis
      by (subst (asm) attempt_loop.simps) auto
  next
    case le: True
    show ?thesis
    proof (cases "try_attempt (world (nat attempt))")
      case (Inr data)
      with le "1.prems" show ?thesis
        by (subst (asm) attempt_loop.simps) simp
    next
      case (Inl error)
      show ?thesis
      proof (cases "attempt = retries")
        case True
        with le Inl "1.prems" show ?thesis
          by (subst (asm) attempt_loop.simps) auto
      next
        case False
        with le Inl "1.prems"
        have "fst (attempt_loop delay world call retries (attempt + 1)) = Inl t"
          by (subst (asm) attempt_loop.simps) simp
        with "1.IH" [OF le Inl False] show ?thesis .
      qed
    qed
  qed
qed

lemma attempt_loop_errors:
  "fst (attempt_loop d world call retries attempt) = Inl (Thrown_ApiError e) \<Longrightarrow>
   (\<And>k. errors_conventional (world k)) \<Longrightarrow> is_string_array (error_errors e)"
proof (induction d world call retries attempt rule: attempt_loop.induct)
  case (1 delay world call retries attempt)
  show ?case
  proof (cases "attempt \<le> retries")
    case False
    with "1.prems"(1) show ?thesis
      by (subst (asm) attempt_loop.simps) (auto simp: new_ApiError_def)
  next
    case le: True
    show ?thesis
    proof (cases "try_attempt (world (nat attempt))")
      case (Inr data)
      with le "1.prems"(1) show ?thesis
        by (subst (asm) attempt_loop.simps) simp
    next
      case (Inl error)
      show ?thesis
      proof (cases "attempt = retries")
        case True
        with le Inl "1.prems"(1) have "e = final_error error"
          by (subst (asm) attempt_loop.simps) auto
        with Inl "1.prems"(2) show ?thesis
          by (simp add: final_error_errors)
      next
        case False
        with le Inl "1.prems"(1)
        have "fst (attempt_loop delay world call retries (attempt + 1)) = Inl (Thrown_ApiError e)"
          by (subst (asm) attempt_loop.simps) simp
        with "1.IH" [OF le Inl False] "1.prems"(2) show ?thesis by simp
      qed
    qed
  qed
qed

text \<open>
  C2, amended. Whatever makes a call fail (a rejected \<^verbatim>\<open>fetch\<close>, an abort, a response
  outside the 2xx range, a body that does not decode, even a loop that runs no attempt),
  what \<^verbatim>\<open>makeRequest\<close> throws is an \<^verbatim>\<open>ApiError\<close> and nothing else, with a string
  \<^verbatim>\<open>message\<close> and a numeric \<^verbatim>\<open>status\<close>. Its \<^verbatim>\<open>errors\<close> is an array of strings provided
  the bodies of the responses outside the 2xx range follow the convention for their
  \<^verbatim>\<open>errors\<close> property (missing, falsy, or an array of strings): the client copies a truthy
  \<^verbatim>\<open>errors\<close> unchecked.
\<close>

theorem error_shape:
  assumes "fst (makeRequest api has_window c world endpoint config) = Inl t"
  shows "\<exists>e. t = Thrown_ApiError e \<and>
           ((\<forall>k. errors_conventional (world k)) \<longrightarrow> is_string_array (error_errors e))"
proof -
  from assms obtain e where e: "t = Thrown_ApiError e"
    unfolding makeRequest_def by (blast dest: attempt_loop_throws_ApiError)
  with assms have "(\<forall>k. errors_conventional (world k)) \<longrightarrow> is_string_array (error_errors e)"
    unfolding makeRequest_def by (auto dest: attempt_loop_errors)
  with e show ?thesis by blast
qed

text \<open>A response 200 whose body is not JSON, with no retry: an \<^verbatim>\<open>ApiError\<close> of status 0.\<close>

theorem error_shape_witness:
  "fst (makeRequest APP_CONFIG_api True shipped_client
          (server_always (Responded 200 (Inl (JsError ''SyntaxError'' ''Unexpected end of JSON input''))))
          ''/users'' (no_config\<lparr> cfg_retries := Some 0 \<rparr>))
     = Inl (Thrown_ApiError \<lparr> error_message = ''Unexpected end of JSON input'', error_status = 0,
                              error_errors = JArr [] \<rparr>)
   \<and> is_string_array (JArr [])"
proof -
  have run: "fst (makeRequest APP_CONFIG_api True shipped_client
          (server_always (Responded 200 (Inl (JsError ''SyntaxError'' ''Unexpected end of JSON input''))))
          ''/users'' (no_config\<lparr> cfg_retries := Some 0 \<rparr>))
     = Inl (Thrown_ApiError (final_error
          (Thrown_other (JsError ''SyntaxError'' ''Unexpected end of JSON input''))))"
    by (simp add: makeRequest_def effective_retries_def no_config_def attempt_loop_once
      server_always_def try_attempt_def response_ok_def)
  have conv: "\<forall>k. errors_conventional
      (server_always (Responded 200 (Inl (JsError ''SyntaxError'' ''Unexpected end of JSON input''))) k)"
    by (simp add: errors_conventional_def server_always_def)
  from error_shape [OF run] conv obtain e where
    e: "Thrown_ApiError (final_error
          (Thrown_other (JsError ''SyntaxError'' ''Unexpected end of JSON input''))) = Thrown_ApiError e"
    and arr: "is_string_array (error_errors e)"
    by blast
  from e have "e = \<lparr> error_message = ''Unexpected end of JSON input'', error_status = 0,
                     error_errors = JArr [] \<rparr>"
    by (simp add: final_error_def new_ApiError_def)
  with run e arr show ?thesis by simp
qed


section \<open>Timeouts\<close>

text \<open>
  C3. When the effective \<^verbatim>\<open>retries\<close> is \<open>N\<close>, the attempts before the last have failed and
  the last attempt is aborted by its signal (\<^verbatim>\<open>fetch\<close> rejects with an error named
  \<^verbatim>\<open>AbortError\<close>), the call throws an \<^verbatim>\<open>ApiError\<close> of status 408 and message
  \<^verbatim>\<open>Request timeout\<close>, with no error details.
\<close>

theorem timeout_mapping:
  assumes "effective_retries c config = int N"
      and "\<forall>k<N. attempt_fails (world k)"
      and "world N = Rejected e"
      and "js_name e = ''AbortError''"
  shows "\<exists>err. fst (makeRequest api has_window c world endpoint config) = Inl (Thrown_ApiError err)
           \<and> error_status err = 408 \<and> error_message err = ''Request timeout''
           \<and> error_errors err = JArr []"
proof -
  have last: "try_attempt (world N) = Inl (Thrown_other e)"
    using assms(3) by (simp add: try_attempt_def)
  have "attempt_fails (world j)" if "j \<le> N" for j
  proof (cases "j = N")
    case True
    with assms(3) show ?thesis by (simp add: attempt_fails_def)
  next
    case False
    with that assms(2) show ?thesis by simp
  qed
  then have "attempt_loop (retryDelay api) world (prepare_fetch has_window c endpoint config)
               (int N) (int 0) =
          (Inl (Thrown_ApiError (final_error (projl (try_attempt (world N))))),
           concat (map (\<lambda>j. [Fetch (prepare_fetch has_window c endpoint config),
                               Sleep (retryDelay api * (int j + 1))]) [0..<N])
             @ [Fetch (prepare_fetch has_window c endpoint config)])"
    by (intro attempt_loop_all_fail) auto
  then have "fst (makeRequest api has_window c world endpoint config) =
               Inl (Thrown_ApiError (final_error (Thrown_other e)))"
    using assms(1) last by (simp add: makeRequest_def)
  moreover have "final_error (Thrown_other e) = new_ApiError ''Request timeout'' (Some 408) None"
    using assms(4) by (simp add: final_error_def)
  ultimately show ?thesis
    by (simp add: new_ApiError_def)
qed

text \<open>One retry: a 503, then an abort.\<close>

theorem timeout_mapping_witness:
  "fst (makeRequest APP_CONFIG_api True shipped_client
          (server_script [Responded 503 (Inr (JObj []))]
             (Rejected (JsError ''AbortError'' ''The operation was aborted.'')))
          ''/users'' (no_config\<lparr> cfg_retries := Some 1 \<rparr>))
     = Inl (Thrown_ApiError \<lparr> error_message = ''Request timeout'', error_status = 408,
                              error_errors = JArr [] \<rparr>)"
proof -
  have retries: "effective_retries shipped_client (no_config\<lparr> cfg_retries := Some 1 \<rparr>) = int 1"
    by (simp add: effective_retries_def)
  have fails: "\<forall>k<1. attempt_fails
      (server_script [Responded 503 (Inr (JObj []))]
         (Rejected (JsError ''AbortError'' ''The operation was aborted.'')) k)"
    by (simp add: attempt_fails_def server_script_def response_ok_def)
  have last: "server_script [Responded 503 (Inr (JObj []))]
         (Rejected (JsError ''AbortError'' ''The operation was aborted.'')) 1
       = Rejected (JsError ''AbortError'' ''The operation was aborted.'')"
    by (simp add: server_script_def)
  have name: "js_name (JsError ''AbortError'' ''The operation was aborted.'') = ''AbortError''"
    by simp
  from timeout_mapping [OF retries fails last name, of APP_CONFIG_api True "''/users''"]
  obtain err where
    "fst (makeRequest APP_CONFIG_api True shipped_client
          (server_script [Responded 503 (Inr (JObj []))]
             (Rejected (JsError ''AbortError'' ''The operation was aborted.'')))
          ''/users'' (no_config\<lparr> cfg_retries := Some 1 \<rparr>)) = Inl (Thrown_ApiError err)"
    "error_status err = 408" "error_message err = ''Request timeout''" "error_errors err = JArr []"
    by blast
  then show ?thesis by simp
qed


section \<open>Headers\<close>

text \<open>
  Every request of a call carries \<^verbatim>\<open>Content-Type: application/json\<close> unless the caller's
  headers say otherwise, and the public methods pass the caller's headers on; \<^verbatim>\<open>upload\<close>
  is no exception.
\<close>

lemma content_type_default:
  assumes "spread_headers (cfg_headers config) ''Content-Type'' = None"
  shows "header_sent ''Content-Type'' (snd (makeRequest api has_window c world endpoint config)) =
           replicate (length (fetches (snd (makeRequest api has_window c world endpoint config))))
             (Some ''application/json'')"
proof -
  have "request_headers (getAuthToken has_window c) (cfg_headers config) ''Content-Type''
          = Some ''application/json''"
    using assms by (simp add: request_headers_def getAuthToken_def map_add_def)
  then show ?thesis
    by (simp add: header_sent_makeRequest)
qed

lemma non_upload_content_type:
  assumes "spread_headers (cfg_headers config) ''Content-Type'' = None"
  shows "header_sent ''Content-Type'' (snd (get api has_window c world endpoint config)) =
           replicate (length (fetches (snd (get api has_window c world endpoint config))))
             (Some ''application/json'')"
    and "header_sent ''Content-Type'' (snd (post api has_window c world endpoint d config)) =
           replicate (length (fetches (snd (post api has_window c world endpoint d config))))
             (Some ''application/json'')"
    and "header_sent ''Content-Type'' (snd (put api has_window c world endpoint d config)) =
           replicate (length (fetches (snd (put api has_window c world endpoint d config))))
             (Some ''application/json'')"
    and "header_sent ''Content-Type'' (snd (patch api has_window c world endpoint d config)) =
           replicate (length (fetches (snd (patch api has_window c world endpoint d config))))
             (Some ''application/json'')"
    and "header_sent ''Content-Type'' (snd (delete api has_window c world endpoint config)) =
           replicate (length (fetches (snd (delete api has_window c world endpoint config))))
             (Some ''application/json'')"
  using assms
  by (simp_all add: get_def post_def put_def patch_def delete_def content_type_default)

lemma upload_content_type:
  assumes "spread_headers (cfg_headers config) ''Content-Type'' = None"
  shows "header_sent ''Content-Type''
           (snd (upload api has_window c world endpoint formData config)) =
         replicate
           (length (fetches (snd (upload api has_window c world endpoint formData config))))
           (Some ''application/json'')"
proof -
  let ?config = "config\<lparr> cfg_method := or_else (Some ''POST'') (cfg_method config),
                cfg_body := or_else (Some (FormData formData)) (cfg_body config),
                cfg_headers := Some (spread_headers (cfg_headers config)) \<rparr>"
  have "spread_headers (cfg_headers ?config) ''Content-Type'' = None"
    using assms by (simp add: spread_headers_def)
  from content_type_default [OF this, of api has_window c world endpoint] show ?thesis
    by (simp add: upload_def)
qed

text \<open>
  C4. An upload with no configuration, answered at once: the request issued carries
  \<^verbatim>\<open>Content-Type: application/json\<close>, where the comment in \<^verbatim>\<open>upload\<close> wants none set so
  that the browser can set the multipart boundary.
\<close>

theorem upload_sends_json_content_type:
  "header_sent ''Content-Type''
     (snd (upload APP_CONFIG_api True shipped_client
             (server_always (Responded 200 (Inr (JObj [(''success'', JBool True)]))))
             ''/files/upload'' [(''file'', ''avatar.png'')] no_config))
   = [Some ''application/json'']"
proof -
  have ok: "try_attempt (server_always (Responded 200 (Inr (JObj [(''success'', JBool True)]))) 0)
              = Inr (JObj [(''success'', JBool True)])"
    by (simp add: server_always_def try_attempt_def response_ok_def)
  have "attempt_loop d (server_always (Responded 200 (Inr (JObj [(''success'', JBool True)]))))
          call 3 0 = (Inr (JObj [(''success'', JBool True)]), [Fetch call])" for d call
    using ok by (intro attempt_loop_first_success) simp_all
  then show ?thesis
    by (simp add: upload_def makeRequest_def effective_retries_def no_config_def
        shipped_client_def new_ApiClient_def APP_CONFIG_api_def header_sent_def prepare_fetch_def
        request_headers_def spread_headers_def getAuthToken_def)
qed

text \<open>
  After \<^verbatim>\<open>setAuthToken\<close> the shipped client sends its request without an
  \<^verbatim>\<open>Authorization\<close> header.
\<close>

theorem authorization_header_counterexample:
  "header_sent ''Authorization''
     (snd (makeRequest APP_CONFIG_api True (setAuthToken True ''secret-token'' shipped_client)
             (server_always (Responded 200 (Inr (JObj [(''success'', JBool True)]))))
             ''/auth/me'' no_config))
   = [None]"
proof -
  have ok: "try_attempt (server_always (Responded 200 (Inr (JObj [(''success'', JBool True)]))) 0)
              = Inr (JObj [(''success'', JBool True)])"
    by (simp add: server_always_def try_attempt_def response_ok_def)
  have "attempt_loop d (server_always (Responded 200 (Inr (JObj [(''success'', JBool True)]))))
          call 3 0 = (Inr (JObj [(''success'', JBool True)]), [Fetch call])" for d call
    using ok by (intro attempt_loop_first_success) simp_all
  then show ?thesis
    by (simp add: makeRequest_def effective_retries_def no_config_def setAuthToken_def
        shipped_client_def new_ApiClient_def APP_CONFIG_api_def header_sent_def prepare_fetch_def
        request_headers_def spread_headers_def getAuthToken_def)
qed

text \<open>
  C5, amended. \<^verbatim>\<open>setAuthToken\<close> stores nothing and \<^verbatim>\<open>getAuthToken\<close> returns \<^verbatim>\<open>null\<close>
  whatever was set, so after \<^verbatim>\<open>setAuthToken(t)\<close> every request of every call carries under
  \<^verbatim>\<open>Authorization\<close> just what the caller's own headers hold there, nothing if they hold
  nothing: the client adds no such header. The header code itself adds
  \<^verbatim>\<open>Authorization: Bearer t\<close> exactly when the token it is given is a non-empty \<open>t\<close>, and
  leaves the header as the caller set it otherwise.
\<close>

theorem authorization_header:
  "getAuthToken has_window (setAuthToken has_window t c) = None
   \<and> header_sent ''Authorization''
       (snd (makeRequest api has_window (setAuthToken has_window t c) world endpoint config))
     = replicate
         (length (fetches
            (snd (makeRequest api has_window (setAuthToken has_window t c) world endpoint config))))
         (spread_headers (cfg_headers config) ''Authorization'')
   \<and> request_headers None hs ''Authorization'' = spread_headers hs ''Authorization''
   \<and> request_headers (Some t) hs ''Authorization''
     = (if t = [] then spread_headers hs ''Authorization'' else Some (''Bearer '' @ t))"
proof -
  have none: "getAuthToken has_window c' = None" for c'
    by (simp add: getAuthToken_def)
  have hdr: "request_headers None hs' ''Authorization'' = spread_headers hs' ''Authorization''" for hs'
    by (simp add: request_headers_def map_add_def split: option.splits)
  have "request_headers (Some t) hs ''Authorization''
     = (if t = [] then spread_headers hs ''Authorization'' else Some (''Bearer '' @ t))"
    by (simp add: request_headers_def map_add_def split: option.splits)
  with none hdr show ?thesis
    by (simp add: header_sent_makeRequest)
qed


section \<open>Soft failures\<close>

text \<open>
  An envelope with \<^verbatim>\<open>success\<close> false whose message is the empty string: the hook reports
  \<^verbatim>\<open>Unknown error occurred\<close>, not the envelope's message.
\<close>

theorem soft_failure_counterexample:
  "api_error (useApi_fetchData
      (Inr \<lparr> data = JNull, message = Some [], success = False, errors = None \<rparr>)
      useApi_initial) = Some ''Unknown error occurred''
   \<and> message \<lparr> data = JNull, message = Some [], success = False, errors = None \<rparr> = Some []"
  by (simp add: useApi_fetchData_def useApi_initial_def string_or_def)

text \<open>
  C9, amended. When an attempt is answered with a 2xx status and a body that is an
  envelope with \<^verbatim>\<open>success\<close> false, the attempts before it having failed, \<^verbatim>\<open>makeRequest\<close>
  throws nothing and returns the decoded envelope. \<^verbatim>\<open>fetchData\<close> of \<^verbatim>\<open>useApi\<close>, given that
  envelope, leaves \<^verbatim>\<open>data\<close> as it was, clears \<^verbatim>\<open>loading\<close> and sets \<^verbatim>\<open>error\<close> to the
  envelope's message, or to \<^verbatim>\<open>Unknown error occurred\<close> when the message is missing or
  empty.
\<close>

theorem soft_failure:
  assumes "effective_retries c config = int N" and "m \<le> N"
      and "\<forall>k<m. attempt_fails (world k)"
      and "world m = Responded status (Inr (ApiResponse_json response))"
      and "response_ok status" and "\<not> success response"
  shows "fst (makeRequest api has_window c world endpoint config) = Inr (ApiResponse_json response)
         \<and> useApi_fetchData (Inr response) st =
             st\<lparr> api_loading := False,
                 api_error := Some (case message response of
                                      None \<Rightarrow> ''Unknown error occurred''
                                    | Some text \<Rightarrow> if text = [] then ''Unknown error occurred''
                                                  else text) \<rparr>"
proof -
  have "try_attempt (world m) = Inr (ApiResponse_json response)"
    using assms(4,5) by (simp add: try_attempt_def)
  then have "attempt_loop (retryDelay api) world (prepare_fetch has_window c endpoint config)
               (int N) (int 0) =
          (Inr (ApiResponse_json response),
           concat (map (\<lambda>j. [Fetch (prepare_fetch has_window c endpoint config),
                               Sleep (retryDelay api * (int j + 1))]) [0..<m])
             @ [Fetch (prepare_fetch has_window c endpoint config)])"
    using assms(2,3) by (intro attempt_loop_until_success) auto
  then have "fst (makeRequest api has_window c world endpoint config) = Inr (ApiResponse_json response)"
    using assms(1) by (simp add: makeRequest_def)
  moreover have "useApi_fetchData (Inr response) st =
             st\<lparr> api_loading := False,
                 api_error := Some (case message response of
                                      None \<Rightarrow> ''Unknown error occurred''
                                    | Some text \<Rightarrow> if text = [] then ''Unknown error occurred''
                                                  else text) \<rparr>"
    using assms(6) by (simp add: useApi_fetchData_def string_or_def split: option.splits)
  ultimately show ?thesis by simp
qed

theorem soft_failure_witness:
  "fst (makeRequest APP_CONFIG_api True shipped_client
          (server_always (Responded 200 (Inr (ApiResponse_json
             \<lparr> data = JNull, message = Some ''Email taken'', success = False, errors = None \<rparr>))))
          ''/auth/register'' no_config)
     = Inr (JObj [(''data'', JNull), (''message'', JStr ''Email taken''), (''success'', JBool False)])
   \<and> useApi_fetchData
        (Inr \<lparr> data = JNull, message = Some ''Email taken'', success = False, errors = None \<rparr>)
        \<lparr> api_data = Some (JStr ''old''), api_loading = False, api_error = None \<rparr>
     = \<lparr> api_data = Some (JStr ''old''), api_loading = False, api_error = Some ''Email taken'' \<rparr>"
proof -
  let ?r = "\<lparr> data = JNull, message = Some ''Email taken'', success = False, errors = None \<rparr>"
  let ?w = "server_always (Responded 200 (Inr (ApiResponse_json ?r)))"
  have retries: "effective_retries shipped_client no_config = int 3"
    by (simp add: effective_retries_def no_config_def shipped_client_def new_ApiClient_def
        APP_CONFIG_api_def)
  have m: "(0::nat) \<le> 3" by simp
  have fails: "\<forall>k<0. attempt_fails (?w k)" by simp
  have at: "?w 0 = Responded 200 (Inr (ApiResponse_json ?r))"
    by (simp add: server_always_def)
  have ok: "response_ok 200" by (simp add: response_ok_def)
  have soft: "\<not> success ?r" by simp
  from soft_failure [OF retries m fails at ok soft, of APP_CONFIG_api True "''/auth/register''"
      "\<lparr> api_data = Some (JStr ''old''), api_loading = False, api_error = None \<rparr>"]
  show ?thesis
    by (simp add: ApiResponse_json_def)
qed


section \<open>Logging out\<close>

text \<open>
  A logout call that is answered with a 500: the error is written to the console, the
  current user is not refetched and the state of the hook is what it was.
\<close>

theorem logout_counterexample:
  "logout (Inl (Thrown_ApiError (new_ApiError ''HTTP 500'' (Some 500) (Some (JArr [])))) :: thrown + unit ApiResponse)
          (Inr \<lparr> data = ''user-7'', message = None, success = True, errors = None \<rparr>)
          \<lparr> api_data = Some ''user-7'', api_loading = False, api_error = None \<rparr>
   = (Inr (),
      \<lparr> api_data = Some ''user-7'', api_loading = False, api_error = None \<rparr>,
      [Call_logout, Console_error (Thrown_ApiError (new_ApiError ''HTTP 500'' (Some 500) (Some (JArr []))))])"
  by (simp add: logout_def)

text \<open>
  C6, amended. \<^verbatim>\<open>logout\<close> of \<^verbatim>\<open>useAuth\<close> never rejects. When the logout call resolves,
  whatever its envelope, the current user is refetched; when it rejects, the error is
  written to the console and nothing else happens: no refetch, no change of state. In
  neither case is a stored token cleared.
\<close>

theorem logout_behaviour:
  "fst (logout logged_out current_user st) = Inr ()
   \<and> (Call_refetch \<in> set (snd (snd (logout logged_out current_user st))) \<longleftrightarrow> \<not> isl logged_out)
   \<and> Call_removeAuthToken \<notin> set (snd (snd (logout logged_out current_user st)))
   \<and> (case logged_out of
        Inr response \<Rightarrow>
          snd (logout logged_out current_user st)
            = (useApi_fetchData current_user st, [Call_logout, Call_refetch])
      | Inl error \<Rightarrow>
          snd (logout logged_out current_user st) = (st, [Call_logout, Console_error error]))"
proof (cases logged_out)
  case (Inl error)
  then show ?thesis
    by (simp add: logout_def)
next
  case (Inr response)
  then show ?thesis
    by (simp add: logout_def)
qed


section \<open>The paginated list\<close>


lemma fetchData_failed:
  assumes "fetch_failed (apiCall pageNum limit)"
  shows "\<exists>e. fetchData apiCall limit pageNum append' st =
           (st\<lparr> list_error := e, list_loading := False \<rparr>, [(pageNum, limit)])"
  using assms by (auto simp: fetchData_def fetch_failed_def Let_def split: sum.splits)



text \<open>
  In a render whose \<^verbatim>\<open>fetchData\<close> is new, the effect asks for page 1 again, and what it
  gets replaces the list and resets the page counter.
\<close>

lemma effect_changed:
  assumes "apiCall 1 limit = Inr r1" and "success r1" and "pagination r1 = Some g1"
  shows "effect True apiCall limit st =
           (st\<lparr> list_error := None, list_data := data r1, hasMore := has_next g1, page := 1,
                list_loading := False \<rparr>,
            [(1, limit)])"
  using assms by (simp add: effect_def fetchData_def Let_def)

text \<open>
  Two pages loaded in a hook that is given a new producer function in every render: the
  render that follows runs the effect, which asks for page 1 again and puts the list
  back to page 1.
\<close>

lemma new_producer_refetches_first_page:
  "effect True (paged_server [page_of ''ab'' 1 True, page_of ''cd'' 2 True, page_of ''e'' 3 False]) 2
     \<lparr> list_data = ''abcd'', list_loading = False, list_error = None, page = 2, hasMore = True \<rparr>
   = (\<lparr> list_data = ''ab'', list_loading = False, list_error = None, page = 1, hasMore = True \<rparr>,
      [(1, 2)])"
proof -
  have "paged_server [page_of ''ab'' 1 True, page_of ''cd'' 2 True, page_of ''e'' 3 False] 1 2
          = Inr (page_of ''ab'' 1 True)"
    by (simp add: paged_server_def)
  from effect_changed [where apiCall = "paged_server [page_of ''ab'' 1 True, page_of ''cd'' 2 True,
          page_of ''e'' 3 False]" and limit = 2, OF this, of _
        "\<lparr> list_data = ''abcd'', list_loading = False, list_error = None, page = 2, hasMore = True \<rparr>"]
  show ?thesis
    by (simp add: page_of_def)
qed




text \<open>
  C8. The \<^verbatim>\<open>loadMore\<close> of a render in which \<^verbatim>\<open>hasMore\<close> is false or a fetch is under way
  leaves the whole state as it is, \<^verbatim>\<open>data\<close> and the page counter included, and does not
  invoke the producer; so does \<^verbatim>\<open>loadMore\<close> called in a state where \<^verbatim>\<open>hasMore\<close> is false
  or a fetch is under way, that state being the one of its render.
\<close>

theorem loadMore_noop:
  assumes "\<not> hasMore render \<or> list_loading render"
  shows "loadMore apiCall limit render st = (st, [])"
  using assms by (auto simp: loadMore_def)

theorem loadMore_noop_witness:
  "loadMore (paged_server [page_of [1, 2 :: nat] 1 False]) 2
     \<lparr> list_data = [1, 2], list_loading = False, list_error = None, page = 1, hasMore = False \<rparr>
     \<lparr> list_data = [1, 2], list_loading = False, list_error = None, page = 1, hasMore = False \<rparr>
   = (\<lparr> list_data = [1, 2], list_loading = False, list_error = None, page = 1, hasMore = False \<rparr>, [])"
  by (rule loadMore_noop) simp

text \<open>
  The fetch of page 1 on mount fails, the producer keeping its identity: the \<^verbatim>\<open>loadMore\<close>
  of the render that follows requests page 2, and page 1 is never requested again.
\<close>

theorem failed_first_page_counterexample:
  "snd (mount (paged_server ([] :: string PaginatedResponse list)) 10) = [(1, 10)]
   \<and> fetch_failed (paged_server ([] :: string PaginatedResponse list) 1 10)
   \<and> snd (effect False (paged_server [])  10
            (fst (mount (paged_server ([] :: string PaginatedResponse list)) 10))) = []
   \<and> snd (loadMore (paged_server []) 10
            (fst (mount (paged_server ([] :: string PaginatedResponse list)) 10))
            (fst (mount (paged_server ([] :: string PaginatedResponse list)) 10))) = [(2, 10)]"
  by (simp add: mount_def effect_def loadMore_def fetchData_def paged_server_def fetch_failed_def
      usePaginatedApi_initial_def)

text \<open>
  C10, amended. A fetch that rejects or delivers an envelope with \<^verbatim>\<open>success\<close> false leaves
  the page counter and \<^verbatim>\<open>data\<close> as they were, whatever page it asked for and whether it
  appends. So when a \<^verbatim>\<open>loadMore\<close> fails, the next \<^verbatim>\<open>loadMore\<close> requests the same page
  number again, be it the \<^verbatim>\<open>loadMore\<close> of the render that follows the failure or the one
  that has just failed.
\<close>

theorem failed_fetch_keeps_page:
  "(fetch_failed (apiCall pageNum limit) \<longrightarrow>
      page (fst (fetchData apiCall limit pageNum append' st)) = page st
      \<and> list_data (fst (fetchData apiCall limit pageNum append' st)) = list_data st)
   \<and> (hasMore st \<and> \<not> list_loading st \<and> fetch_failed (apiCall (page st + 1) limit) \<longrightarrow>
      page (fst (loadMore apiCall limit st st)) = page st
      \<and> list_data (fst (loadMore apiCall limit st st)) = list_data st
      \<and> snd (loadMore apiCall limit st st) = [(page st + 1, limit)]
      \<and> snd (loadMore apiCall' limit (fst (loadMore apiCall limit st st))
                (fst (loadMore apiCall limit st st))) = [(page st + 1, limit)]
      \<and> snd (loadMore apiCall' limit st (fst (loadMore apiCall limit st st)))
          = [(page st + 1, limit)])"
proof (intro conjI impI)
  assume "fetch_failed (apiCall pageNum limit)"
  from fetchData_failed [where apiCall = apiCall and pageNum = pageNum and limit = limit,
      OF this, of "append'" st]
  obtain e where "fetchData apiCall limit pageNum append' st =
          (st\<lparr> list_error := e, list_loading := False \<rparr>, [(pageNum, limit)])"
    by blast
  then show "page (fst (fetchData apiCall limit pageNum append' st)) = page st"
    and "list_data (fst (fetchData apiCall limit pageNum append' st)) = list_data st"
    by simp_all
next
  assume a: "hasMore st \<and> \<not> list_loading st \<and> fetch_failed (apiCall (page st + 1) limit)"
  then have "fetch_failed (apiCall (page st + 1) limit)"
    by simp
  from fetchData_failed [where apiCall = apiCall and pageNum = "page st + 1" and limit = limit,
      OF this, of True st]
  obtain e where "fetchData apiCall limit (page st + 1) True st =
          (st\<lparr> list_error := e, list_loading := False \<rparr>, [(page st + 1, limit)])"
    by blast
  with a have first: "loadMore apiCall limit st st =
          (st\<lparr> list_error := e, list_loading := False \<rparr>, [(page st + 1, limit)])"
    by (simp add: loadMore_def)
  have calls: "snd (fetchData call lim p b s) = [(p, lim)]"
    for call :: "nat \<Rightarrow> nat \<Rightarrow> thrown + 'a PaginatedResponse" and lim p b s
    by (simp add: fetchData_def Let_def)
  from first show "page (fst (loadMore apiCall limit st st)) = page st"
    and "list_data (fst (loadMore apiCall limit st st)) = list_data st"
    and "snd (loadMore apiCall limit st st) = [(page st + 1, limit)]"
    by simp_all
  from a show "snd (loadMore apiCall' limit (fst (loadMore apiCall limit st st))
                (fst (loadMore apiCall limit st st))) = [(page st + 1, limit)]"
    unfolding first by (simp add: loadMore_def calls)
  from a show "snd (loadMore apiCall' limit st (fst (loadMore apiCall limit st st)))
          = [(page st + 1, limit)]"
    unfolding first by (simp add: loadMore_def calls)
qed

theorem failed_fetch_keeps_page_witness:
  "page (fst (loadMore (paged_server [page_of ''ab'' 1 True]) 2
       \<lparr> list_data = ''ab'', list_loading = False, list_error = None, page = 1, hasMore = True \<rparr>
       \<lparr> list_data = ''ab'', list_loading = False, list_error = None, page = 1, hasMore = True \<rparr>)) = 1
   \<and> list_data (fst (loadMore (paged_server [page_of ''ab'' 1 True]) 2
       \<lparr> list_data = ''ab'', list_loading = False, list_error = None, page = 1, hasMore = True \<rparr>
       \<lparr> list_data = ''ab'', list_loading = False, list_error = None, page = 1, hasMore = True \<rparr>)) = ''ab''
   \<and> snd (loadMore (paged_server [page_of ''ab'' 1 True, page_of ''cd'' 2 False]) 2
       (fst (loadMore (paged_server [page_of ''ab'' 1 True]) 2
         \<lparr> list_data = ''ab'', list_loading = False, list_error = None, page = 1, hasMore = True \<rparr>
         \<lparr> list_data = ''ab'', list_loading = False, list_error = None, page = 1, hasMore = True \<rparr>))
       (fst (loadMore (paged_server [page_of ''ab'' 1 True]) 2
         \<lparr> list_data = ''ab'', list_loading = False, list_error = None, page = 1, hasMore = True \<rparr>
         \<lparr> list_data = ''ab'', list_loading = False, list_error = None, page = 1, hasMore = True \<rparr>)))
     = [(2, 2)]"
proof -
  let ?api = "paged_server [page_of ''ab'' 1 True]"
  let ?st = "\<lparr> list_data = ''ab'', list_loading = False, list_error = None, page = 1, hasMore = True \<rparr>"
  have "fetch_failed (?api (page ?st + 1) 2)"
    by (simp add: fetch_failed_def paged_server_def)
  then have "hasMore ?st \<and> \<not> list_loading ?st \<and> fetch_failed (?api (page ?st + 1) 2)"
    by simp
  with failed_fetch_keeps_page [where apiCall = ?api and limit = 2 and st = ?st
      and apiCall' = "paged_server [page_of ''ab'' 1 True, page_of ''cd'' 2 False]"]
  show ?thesis by simp
qed

end
